theory Spec2Isabelle
  imports Main "HOL-Library.Stream" "HOL-Library.Word"
begin

section \<open>JavaScript values as the program sees them\<close>

text \<open>
  Everything \<open>src/api/index.js\<close> inspects is the result of \<open>JSON.parse\<close> or of a
  property read on such a result, so a value is a JSON value or \<open>undefined\<close>.
  \<^item> \<open>JNum\<close> carries an integer from \<open>-2^53\<close> to \<open>2^53 - 1\<close>, held in 54 bits and read
    by \<open>sint\<close>: in that range every integer is a double and prints in plain decimal, which
    covers the status codes and millisecond time stamps the program handles. The type has no
    other number: fractions and numbers beyond that range are outside the model. \<open>-0\<close> is
    \<open>0\<close>, from which nothing in the program tells it apart.
  \<^item> A string is a list of code units below 256.
  \<^item> An object is the list of its own properties in insertion order; \<open>JSON.parse\<close>
    leaves no duplicate key.
\<close>

type_synonym safe_integer = "54 word"

datatype js =
    JUndefined
  | JNull
  | JBool bool
  | JNum safe_integer
  | JStr string
  | JArr "js list"
  | JObj "(string \<times> js) list"

text \<open>
  What the program can throw: an \<open>Error\<close> built by \<open>makeAppleRequest\<close>, or a
  \<open>TypeError\<close> of the engine. The texts of the engine's messages are those of V8.
\<close>

datatype js_error = Error string | TypeError string

fun message :: "js_error \<Rightarrow> string" where
  "message (Error m) = m"
| "message (TypeError m) = m"

text \<open>
  \<open>v.p\<close> for a property name \<open>p\<close> that no prototype defines, which holds for the six
  names the program reads (\<open>status\<close>, \<open>receipt\<close>, \<open>latest_receipt_info\<close>,
  \<open>in_app\<close>, \<open>product_id\<close>, \<open>expires_date_ms\<close>): reading from \<open>undefined\<close> or
  \<open>null\<close> throws, an object gives its own property or \<open>undefined\<close>, every other
  value gives \<open>undefined\<close>.
\<close>

fun Get :: "js \<Rightarrow> string \<Rightarrow> js_error + js" where
  "Get JUndefined p =
     Inl (TypeError (''Cannot read properties of undefined (reading '' @ [CHR 0x27] @ p @ [CHR 0x27] @ '')''))"
| "Get JNull p =
     Inl (TypeError (''Cannot read properties of null (reading '' @ [CHR 0x27] @ p @ [CHR 0x27] @ '')''))"
| "Get (JObj kvs) p = Inr (case map_of kvs p of None \<Rightarrow> JUndefined | Some v \<Rightarrow> v)"
| "Get v p = Inr JUndefined"

text \<open>\<open>ToBoolean\<close>, as \<open>!\<close> and \<open>if\<close> apply it.\<close>

fun truthy :: "js \<Rightarrow> bool" where
  "truthy JUndefined = False"
| "truthy JNull = False"
| "truthy (JBool b) = b"
| "truthy (JNum n) = (n \<noteq> 0)"
| "truthy (JStr s) = (s \<noteq> [])"
| "truthy (JArr xs) = True"
| "truthy (JObj kvs) = True"

text \<open>
  \<open>a === b\<close>. Primitives compare by type and value. Arrays and objects compare by
  identity; the two operands of every \<open>===\<close> in the program come from different
  sources (a parsed response against a literal or against the caller's argument), so two
  arrays or two objects are never the same reference.
\<close>

fun strict_eq :: "js \<Rightarrow> js \<Rightarrow> bool" where
  "strict_eq JUndefined JUndefined = True"
| "strict_eq JNull JNull = True"
| "strict_eq (JBool a) (JBool b) = (a = b)"
| "strict_eq (JNum a) (JNum b) = (a = b)"
| "strict_eq (JStr a) (JStr b) = (a = b)"
| "strict_eq a b = False"

subsection \<open>Conversion to string\<close>

definition digit_char :: "nat \<Rightarrow> char" where
  "digit_char d = ''0123456789'' ! d"

function nat_to_string :: "nat \<Rightarrow> string" where
  "nat_to_string n =
     (if n < 10 then [digit_char n] else nat_to_string (n div 10) @ [digit_char (n mod 10)])"
  by pat_completeness auto
termination
  by (relation "measure id") auto

declare nat_to_string.simps [simp del]

text \<open>\<open>Number::toString\<close> on the numbers of the model: a sign and the decimal digits.\<close>

definition Number_toString :: "safe_integer \<Rightarrow> string" where
  "Number_toString x =
     (if sint x < 0 then ''-'' @ nat_to_string (nat (- sint x)) else nat_to_string (nat (sint x)))"

text \<open>
  \<open>ToString\<close>, as a template literal and \<open>parseInt\<close> apply it. An array prints as
  \<open>join(",")\<close>, where \<open>undefined\<close> and \<open>null\<close> elements print as the empty string.
  An object prints through \<open>Object.prototype.toString\<close>, unless it has an own property
  \<open>toString\<close>: a parsed value is never callable, \<open>valueOf\<close> is either own and not
  callable or inherited and returns the object, and the conversion throws.
\<close>

fun ToString :: "js \<Rightarrow> js_error + string"
  and join :: "js list \<Rightarrow> js_error + string"
  and element_string :: "js \<Rightarrow> js_error + string"
where
  "ToString JUndefined = Inr ''undefined''"
| "ToString JNull = Inr ''null''"
| "ToString (JBool b) = Inr (if b then ''true'' else ''false'')"
| "ToString (JNum n) = Inr (Number_toString n)"
| "ToString (JStr s) = Inr s"
| "ToString (JArr xs) = join xs"
| "ToString (JObj kvs) =
     (if ''toString'' \<in> fst ` set kvs
      then Inl (TypeError ''Cannot convert object to primitive value'')
      else Inr ''[object Object]'')"
| "join [] = Inr []"
| "join [x] = element_string x"
| "join (x # y # ys) =
     (case element_string x of
        Inl e \<Rightarrow> Inl e
      | Inr s \<Rightarrow> (case join (y # ys) of Inl e \<Rightarrow> Inl e | Inr r \<Rightarrow> Inr (s @ '','' @ r)))"
| "element_string JUndefined = Inr []"
| "element_string JNull = Inr []"
| "element_string (JBool b) = ToString (JBool b)"
| "element_string (JNum n) = ToString (JNum n)"
| "element_string (JStr s) = ToString (JStr s)"
| "element_string (JArr xs) = ToString (JArr xs)"
| "element_string (JObj kvs) = ToString (JObj kvs)"

section \<open>The verification request\<close>

text \<open>Lines 8 and 9.\<close>

definition PRODUCTION_URL :: string where
  "PRODUCTION_URL = ''https://buy.itunes.apple.com/verifyReceipt''"

definition SANDBOX_URL :: string where
  "SANDBOX_URL = ''https://sandbox.itunes.apple.com/verifyReceipt''"

text \<open>
  Line 12: \<open>process.env.APPLE_SHARED_SECRET || '...'\<close>. The argument is the environment
  variable, \<open>None\<close> when it is unset; the empty string is falsy.
\<close>

definition SHARED_SECRET :: "string option \<Rightarrow> string" where
  "SHARED_SECRET env =
     (case env of
        None \<Rightarrow> ''a374b8c7a3b346b5ab7bfc234e69924d''
      | Some s \<Rightarrow> if s = [] then ''a374b8c7a3b346b5ab7bfc234e69924d'' else s)"

text \<open>The object of lines 20 to 24; \<open>makeAppleRequest\<close> sends its \<open>JSON.stringify\<close>.\<close>

record payload =
  receipt_data :: js
  password :: js
  exclude_old_transactions :: bool

text \<open>
  What one HTTPS exchange ends in, seen from \<open>makeAppleRequest\<close>: the request emits
  \<open>error\<close> (with the message of that error), or the response ends and \<open>JSON.parse\<close>
  of its body throws (with the message of that error) or returns a value. An exchange that
  never ends, which would leave the promise pending, is outside the model.
\<close>

datatype http_result =
    Request_error string
  | Body_unparseable string
  | Body_parsed js

text \<open>
  The network answers a request to a URL with a body. Each call is appended to a log of
  the requests sent, so that the number and the order of the calls can be stated.
\<close>

type_synonym network = "string \<Rightarrow> payload \<Rightarrow> http_result"
type_synonym call_log = "(string \<times> payload) list"

text \<open>Lines 82 to 118: the promise resolves (\<open>Inr\<close>) or rejects (\<open>Inl\<close>).\<close>

definition makeAppleRequest ::
  "network \<Rightarrow> string \<Rightarrow> payload \<Rightarrow> call_log \<Rightarrow> (js_error + js) \<times> call_log" where
  "makeAppleRequest net url pl log =
     (case net url pl of
        Request_error m \<Rightarrow> Inl (Error (''Request failed: '' @ m))
      | Body_unparseable m \<Rightarrow> Inl (Error (''Failed to parse Apple response: '' @ m))
      | Body_parsed response \<Rightarrow> Inr response,
      log @ [(url, pl)])"

section \<open>validateReceipt\<close>

datatype environment = production | sandbox | unknown

text \<open>
  The object \<open>validateReceipt\<close> returns. \<open>error\<close> is \<open>None\<close> and \<open>data\<close> is
  \<open>JUndefined\<close> where the object has no such property.
\<close>

record validation_result =
  success :: bool
  environment :: environment
  error :: "string option"
  data :: js

text \<open>
  Lines 27 to 67, the body of the \<open>try\<close> block: \<open>Inl\<close> is an exception thrown inside
  it. \<open>productionResult.status\<close> is read once here and up to three times in the source;
  the read has no effect and can only throw the first time. The \<open>console.log\<close> of line
  41 is left out.
\<close>

definition validateReceipt_try ::
  "network \<Rightarrow> payload \<Rightarrow> call_log \<Rightarrow> (js_error + validation_result) \<times> call_log" where
  "validateReceipt_try net pl log =
     (case makeAppleRequest net PRODUCTION_URL pl log of
        (Inl e, log1) \<Rightarrow> (Inl e, log1)
      | (Inr productionResult, log1) \<Rightarrow>
          (case Get productionResult ''status'' of
             Inl e \<Rightarrow> (Inl e, log1)
           | Inr pstatus \<Rightarrow>
               if strict_eq pstatus (JNum 0) then
                 (Inr \<lparr>success = True, environment = production, error = None,
                       data = productionResult\<rparr>, log1)
               else if strict_eq pstatus (JNum 21007) then
                 (case makeAppleRequest net SANDBOX_URL pl log1 of
                    (Inl e, log2) \<Rightarrow> (Inl e, log2)
                  | (Inr sandboxResult, log2) \<Rightarrow>
                      (case Get sandboxResult ''status'' of
                         Inl e \<Rightarrow> (Inl e, log2)
                       | Inr sstatus \<Rightarrow>
                           if strict_eq sstatus (JNum 0) then
                             (Inr \<lparr>success = True, environment = sandbox, error = None,
                                   data = sandboxResult\<rparr>, log2)
                           else
                             (case ToString sstatus of
                                Inl e \<Rightarrow> (Inl e, log2)
                              | Inr s \<Rightarrow>
                                  (Inr \<lparr>success = False, environment = sandbox,
                                        error = Some (''Sandbox validation failed with status: '' @ s),
                                        data = sandboxResult\<rparr>, log2))))
               else
                 (case ToString pstatus of
                    Inl e \<Rightarrow> (Inl e, log1)
                  | Inr s \<Rightarrow>
                      (Inr \<lparr>success = False, environment = production,
                            error = Some (''Production validation failed with status: '' @ s),
                            data = productionResult\<rparr>, log1))))"

text \<open>
  Lines 19 to 24: the object \<open>payload\<close>. \<open>env\<close> is the environment variable read at
  line 12. The default of the parameter \<open>sharedSecret\<close> applies when the argument is
  \<open>undefined\<close>.
\<close>

definition request_body :: "string option \<Rightarrow> js \<Rightarrow> js \<Rightarrow> payload" where
  "request_body env receiptData sharedSecret =
     \<lparr>receipt_data = receiptData,
      password = (if sharedSecret = JUndefined then JStr (SHARED_SECRET env) else sharedSecret),
      exclude_old_transactions = True\<rparr>"

text \<open>
  Lines 19 to 77. The \<open>catch\<close> block turns every exception of the \<open>try\<close> block
  into a result; the \<open>console.error\<close> of line 70 is left out. The second component is
  the log of the requests sent, starting from the empty log.
\<close>

definition validateReceipt ::
  "string option \<Rightarrow> network \<Rightarrow> js \<Rightarrow> js \<Rightarrow> validation_result \<times> call_log" where
  "validateReceipt env net receiptData sharedSecret =
     (case validateReceipt_try net (request_body env receiptData sharedSecret) [] of
        (Inr result, log) \<Rightarrow> (result, log)
      | (Inl e, log) \<Rightarrow>
          (\<lparr>success = False, environment = unknown, error = Some (message e),
            data = JUndefined\<rparr>, log))"

section \<open>hasActiveSubscription\<close>

subsection \<open>parseInt\<close>

text \<open>The white space \<open>parseInt\<close> skips, among the code units below 256.\<close>

definition StrWhiteSpaceChar :: "char \<Rightarrow> bool" where
  "StrWhiteSpaceChar c =
     (c \<in> set [CHR 0x09, CHR 0x0A, CHR 0x0B, CHR 0x0C, CHR 0x0D, CHR 0x20, CHR 0xA0])"

definition digit_value :: "char \<Rightarrow> nat option" where
  "digit_value c =
     (let n = (of_char c :: nat)
      in if 48 \<le> n \<and> n \<le> 57 then Some (n - 48)
         else if 97 \<le> n \<and> n \<le> 122 then Some (n - 87)
         else if 65 \<le> n \<and> n \<le> 90 then Some (n - 55)
         else None)"

definition is_radix_digit :: "nat \<Rightarrow> char \<Rightarrow> bool" where
  "is_radix_digit R c = (case digit_value c of None \<Rightarrow> False | Some d \<Rightarrow> d < R)"

definition digits_value :: "nat \<Rightarrow> string \<Rightarrow> nat" where
  "digits_value R Z = foldl (\<lambda>a c. a * R + (case digit_value c of None \<Rightarrow> 0 | Some d \<Rightarrow> d)) 0 Z"

text \<open>
  \<open>parseInt(string)\<close> with no radix: skip white space, read a sign, take radix 16 after
  \<open>0x\<close> or \<open>0X\<close> and radix 10 otherwise, read the longest run of digits. \<open>None\<close> is
  \<open>NaN\<close>. The result is the integer the digits denote; the engine rounds it to a double,
  which does not change how it compares with an integer that a double holds exactly.
\<close>

definition parseInt_string :: "string \<Rightarrow> int option" where
  "parseInt_string inputString =
     (let S1 = dropWhile StrWhiteSpaceChar inputString;
          negative = (S1 \<noteq> [] \<and> hd S1 = CHR ''-'');
          S2 = (if S1 \<noteq> [] \<and> (hd S1 = CHR ''+'' \<or> hd S1 = CHR ''-'') then tl S1 else S1);
          hex = (case S2 of a # b # rest \<Rightarrow> a = CHR ''0'' \<and> (b = CHR ''x'' \<or> b = CHR ''X'') | _ \<Rightarrow> False);
          R = (if hex then 16 else 10);
          S3 = (if hex then drop 2 S2 else S2);
          Z = takeWhile (is_radix_digit R) S3
      in if Z = [] then None
         else Some ((if negative then - 1 else 1) * int (digits_value R Z)))"

definition parseInt :: "js \<Rightarrow> js_error + int option" where
  "parseInt v = (case ToString v of Inl e \<Rightarrow> Inl e | Inr s \<Rightarrow> Inr (parseInt_string s))"

text \<open>\<open>expiresDate > now\<close>: a comparison with \<open>NaN\<close> is false.\<close>

fun greater_than :: "int option \<Rightarrow> int \<Rightarrow> bool" where
  "greater_than None now = False"
| "greater_than (Some n) now = (n > now)"

subsection \<open>The clock and the loops\<close>

text \<open>
  The clock is the sequence of the values the coming calls of \<open>Date.now()\<close> return; a
  call takes the first one.
\<close>

type_synonym clock = "int stream"

definition Date_now :: "clock \<Rightarrow> int \<times> clock" where
  "Date_now c = (shd c, stl c)"

text \<open>
  The values \<open>for (const x of v)\<close> runs through: the elements of an array, the
  characters of a string; any other value that passes the guard before the loop is not
  iterable. \<open>src\<close> is the text of the expression, which the message quotes.
\<close>

fun iterate :: "string \<Rightarrow> js \<Rightarrow> js_error + js list" where
  "iterate src (JArr xs) = Inr xs"
| "iterate src (JStr s) = Inr (map (\<lambda>c. JStr [c]) s)"
| "iterate src v = Inl (TypeError (src @ '' is not iterable''))"

text \<open>
  Lines 134 to 143: \<open>Inr True\<close> is the \<open>return true\<close> of line 140, \<open>Inr False\<close>
  the end of the loop, \<open>Inl\<close> an exception.
\<close>

fun scan_latest_receipt_info :: "int \<Rightarrow> js \<Rightarrow> js list \<Rightarrow> js_error + bool" where
  "scan_latest_receipt_info now productId [] = Inr False"
| "scan_latest_receipt_info now productId (transaction # rest) =
     (case Get transaction ''product_id'' of
        Inl e \<Rightarrow> Inl e
      | Inr pid \<Rightarrow>
          if strict_eq pid productId then
            (case Get transaction ''expires_date_ms'' of
               Inl e \<Rightarrow> Inl e
             | Inr ms \<Rightarrow>
                 (case parseInt ms of
                    Inl e \<Rightarrow> Inl e
                  | Inr expiresDate \<Rightarrow>
                      if greater_than expiresDate now then Inr True
                      else scan_latest_receipt_info now productId rest))
          else scan_latest_receipt_info now productId rest)"

text \<open>Lines 148 to 154, likewise.\<close>

fun scan_in_app :: "js \<Rightarrow> js list \<Rightarrow> js_error + bool" where
  "scan_in_app productId [] = Inr False"
| "scan_in_app productId (purchase # rest) =
     (case Get purchase ''product_id'' of
        Inl e \<Rightarrow> Inl e
      | Inr pid \<Rightarrow> if strict_eq pid productId then Inr True else scan_in_app productId rest)"

text \<open>Lines 147 to 157: what the function returns once the first loop has not.\<close>

definition in_app_fallback :: "js \<Rightarrow> js \<Rightarrow> js_error + bool" where
  "in_app_fallback receipt productId =
     (case Get receipt ''in_app'' of
        Inl e \<Rightarrow> Inl e
      | Inr in_app \<Rightarrow>
          if truthy in_app then
            (case iterate ''receipt.in_app'' in_app of
               Inl e \<Rightarrow> Inl e
             | Inr purchases \<Rightarrow> scan_in_app productId purchases)
          else Inr False)"

text \<open>
  Lines 123 to 158. The result is the value returned (\<open>Inr\<close>) or the exception that
  leaves the function (\<open>Inl\<close>), with the clock that remains.
\<close>

definition hasActiveSubscription ::
  "clock \<Rightarrow> validation_result \<Rightarrow> js \<Rightarrow> (js_error + bool) \<times> clock" where
  "hasActiveSubscription c validationResult productId =
     (if \<not> success validationResult then (Inr False, c)
      else
        (case Get (data validationResult) ''receipt'' of
           Inl e \<Rightarrow> (Inl e, c)
         | Inr receipt \<Rightarrow>
             if \<not> truthy receipt then (Inr False, c)
             else
               (case Get receipt ''latest_receipt_info'' of
                  Inl e \<Rightarrow> (Inl e, c)
                | Inr latest_receipt_info \<Rightarrow>
                    if truthy latest_receipt_info then
                      (case Date_now c of
                         (now, c1) \<Rightarrow>
                           (case iterate ''receipt.latest_receipt_info'' latest_receipt_info of
                              Inl e \<Rightarrow> (Inl e, c1)
                            | Inr transactions \<Rightarrow>
                                (case scan_latest_receipt_info now productId transactions of
                                   Inl e \<Rightarrow> (Inl e, c1)
                                 | Inr True \<Rightarrow> (Inr True, c1)
                                 | Inr False \<Rightarrow> (in_app_fallback receipt productId, c1))))
                    else (in_app_fallback receipt productId, c))))"

section \<open>The data model of the receipt, on the parsed response\<close>

text \<open>
  The properties below speak of receipts shaped as the provider sends them: the response
  is an object; its \<open>receipt\<close>, when present, is an object; \<open>latest_receipt_info\<close>
  and \<open>in_app\<close>, when present, are arrays of transactions; a transaction is an object
  whose \<open>product_id\<close> is a string and whose \<open>expires_date_ms\<close> is absent or a
  primitive value (in practice a string of decimal digits).
\<close>

fun is_transaction :: "js \<Rightarrow> bool" where
  "is_transaction (JObj kvs) =
     ((case map_of kvs ''product_id'' of Some (JStr p) \<Rightarrow> True | _ \<Rightarrow> False) \<and>
      (case map_of kvs ''expires_date_ms'' of
         Some (JArr xs) \<Rightarrow> False
       | Some (JObj fs) \<Rightarrow> False
       | _ \<Rightarrow> True))"
| "is_transaction v = False"

fun is_transaction_sequence :: "js \<Rightarrow> bool" where
  "is_transaction_sequence JUndefined = True"
| "is_transaction_sequence (JArr xs) = list_all is_transaction xs"
| "is_transaction_sequence v = False"

fun is_receipt_record :: "js \<Rightarrow> bool" where
  "is_receipt_record (JObj kvs) =
     (is_transaction_sequence (case map_of kvs ''latest_receipt_info'' of None \<Rightarrow> JUndefined | Some v \<Rightarrow> v) \<and>
      is_transaction_sequence (case map_of kvs ''in_app'' of None \<Rightarrow> JUndefined | Some v \<Rightarrow> v))"
| "is_receipt_record v = False"

definition well_formed_verified :: "validation_result \<Rightarrow> bool" where
  "well_formed_verified vr =
     (success vr \<and>
      (case data vr of
         JObj kvs \<Rightarrow> (case map_of kvs ''receipt'' of None \<Rightarrow> True | Some r \<Rightarrow> is_receipt_record r)
       | _ \<Rightarrow> False))"

text \<open>
  The two sequences of a result's receipt, empty where the receipt or the sequence is
  absent, read as lines 128, 131 and 147 read them.
\<close>

definition transactions_of :: "validation_result \<Rightarrow> string \<Rightarrow> js list" where
  "transactions_of vr name =
     (case Get (data vr) ''receipt'' of
        Inl e \<Rightarrow> []
      | Inr receipt \<Rightarrow> (case Get receipt name of Inr (JArr xs) \<Rightarrow> xs | _ \<Rightarrow> []))"

definition latestTransactions :: "validation_result \<Rightarrow> js list" where
  "latestTransactions vr = transactions_of vr ''latest_receipt_info''"

definition inAppPurchases :: "validation_result \<Rightarrow> js list" where
  "inAppPurchases vr = transactions_of vr ''in_app''"

text \<open>Line 135 and line 149: the test on the product of one transaction.\<close>

definition product_matches :: "js \<Rightarrow> js \<Rightarrow> bool" where
  "product_matches transaction productId =
     (case Get transaction ''product_id'' of Inl e \<Rightarrow> False | Inr pid \<Rightarrow> strict_eq pid productId)"

text \<open>Line 136: the expiry of one transaction as the code reads it, \<open>None\<close> for \<open>NaN\<close>.\<close>

definition expiresAtEpochMillis :: "js \<Rightarrow> int option" where
  "expiresAtEpochMillis transaction =
     (case Get transaction ''expires_date_ms'' of
        Inl e \<Rightarrow> None
      | Inr ms \<Rightarrow> (case parseInt ms of Inl e \<Rightarrow> None | Inr expiresDate \<Rightarrow> expiresDate))"

text \<open>
  A text that starts with a number, stated on the characters alone: after leading white
  space and one optional sign comes a decimal digit; where that digit is \<open>0\<close> followed by
  \<open>x\<close> or \<open>X\<close>, a hexadecimal digit has to follow.
\<close>

definition starts_with_number :: "string \<Rightarrow> bool" where
  "starts_with_number s =
     (let r = dropWhile (\<lambda>c. c \<in> set [CHR 0x09, CHR 0x0A, CHR 0x0B, CHR 0x0C, CHR 0x0D, CHR 0x20, CHR 0xA0]) s;
          u = (case r of [] \<Rightarrow> [] | c # cs \<Rightarrow> if c = CHR ''+'' \<or> c = CHR ''-'' then cs else r)
      in case u of
           [] \<Rightarrow> False
         | [a] \<Rightarrow> a \<in> set ''0123456789''
         | a # b # w \<Rightarrow>
             if a = CHR ''0'' \<and> (b = CHR ''x'' \<or> b = CHR ''X'')
             then (case w of [] \<Rightarrow> False | h # t \<Rightarrow> h \<in> set ''0123456789abcdefABCDEF'')
             else a \<in> set ''0123456789'')"

text \<open>
  An \<open>expires_date_ms\<close> with no number to read: \<open>undefined\<close> (the property is absent),
  \<open>null\<close>, a boolean, or a string that does not start with a number.
\<close>

fun no_leading_number :: "js \<Rightarrow> bool" where
  "no_leading_number JUndefined = True"
| "no_leading_number JNull = True"
| "no_leading_number (JBool b) = True"
| "no_leading_number (JStr s) = (\<not> starts_with_number s)"
| "no_leading_number v = False"

definition expires_date_ms :: "js \<Rightarrow> js" where
  "expires_date_ms transaction =
     (case Get transaction ''expires_date_ms'' of Inl e \<Rightarrow> JUndefined | Inr ms \<Rightarrow> ms)"

section \<open>Example inputs\<close>

text \<open>Responses of the provider and networks that return them, used in the examples below.\<close>

definition monthly_transaction :: "string \<Rightarrow> js" where
  "monthly_transaction ms = JObj [(''product_id'', JStr ''com.app.monthly''), (''expires_date_ms'', JStr ms)]"

definition response_ok :: js where
  "response_ok =
     JObj [(''status'', JNum 0),
           (''receipt'', JObj [(''latest_receipt_info'', JArr [monthly_transaction ''1700000000000''])])]"

definition response_status :: "safe_integer \<Rightarrow> js" where
  "response_status n = JObj [(''status'', JNum n)]"

definition network_of :: "http_result \<Rightarrow> http_result \<Rightarrow> network" where
  "network_of production_reply sandbox_reply url pl =
     (if url = PRODUCTION_URL then production_reply else sandbox_reply)"

definition verified_with :: "js \<Rightarrow> validation_result" where
  "verified_with receipt =
     \<lparr>success = True, environment = production, error = None,
      data = JObj [(''status'', JNum 0), (''receipt'', receipt)]\<rparr>"

definition rejected_example :: validation_result where
  "rejected_example =
     \<lparr>success = False, environment = production,
      error = Some ''Production validation failed with status: 21002'',
      data = response_status 21002\<rparr>"

definition verified_without_receipt :: validation_result where
  "verified_without_receipt =
     \<lparr>success = True, environment = production, error = None, data = response_status 0\<rparr>"

definition purchase_of_monthly :: js where
  "purchase_of_monthly = JObj [(''product_id'', JStr ''com.app.monthly'')]"

definition receipt_active :: js where
  "receipt_active =
     JObj [(''latest_receipt_info'',
            JArr [monthly_transaction ''1600000000000'', monthly_transaction ''1800000000000''])]"

definition receipt_expired :: js where
  "receipt_expired =
     JObj [(''latest_receipt_info'', JArr [monthly_transaction ''1600000000000''])]"

definition receipt_expired_with_purchase :: js where
  "receipt_expired_with_purchase =
     JObj [(''latest_receipt_info'', JArr [monthly_transaction ''1600000000000'']),
           (''in_app'', JArr [purchase_of_monthly])]"

definition yearly_transaction :: "string \<Rightarrow> js" where
  "yearly_transaction ms = JObj [(''product_id'', JStr ''com.app.yearly''), (''expires_date_ms'', JStr ms)]"

definition receipt_two_products :: js where
  "receipt_two_products =
     JObj [(''latest_receipt_info'',
            JArr [yearly_transaction ''1800000000000'', monthly_transaction ''1600000000000''])]"

definition receipt_with_unit :: js where
  "receipt_with_unit =
     JObj [(''latest_receipt_info'', JArr [monthly_transaction ''1800000000000 ms''])]"

definition response_status_unprintable :: js where
  "response_status_unprintable = JObj [(''status'', JObj [(''toString'', JNum 0)])]"

definition response_without_status :: js where
  "response_without_status = JObj []"

definition receipt_without_expiry :: js where
  "receipt_without_expiry =
     JObj [(''latest_receipt_info'',
            JArr [purchase_of_monthly, monthly_transaction ''never'', monthly_transaction ''abc1''])]"

section \<open>Properties of the conversions\<close>

lemma digit_value_digit_char: "d < 10 \<Longrightarrow> digit_value (digit_char d) = Some d"
proof -
  assume "d < 10"
  then have "d = 0 \<or> d = 1 \<or> d = 2 \<or> d = 3 \<or> d = 4 \<or> d = 5 \<or> d = 6 \<or> d = 7 \<or> d = 8 \<or> d = 9"
    by arith
  then show ?thesis
    by (elim disjE) (simp_all add: digit_char_def digit_value_def)
qed

lemma digit_char_plain:
  assumes "d < 10"
  shows "is_radix_digit 10 (digit_char d)" and "\<not> StrWhiteSpaceChar (digit_char d)"
    and "digit_char d \<noteq> CHR ''+''" and "digit_char d \<noteq> CHR ''-''"
    and "digit_char d \<noteq> CHR ''x''" and "digit_char d \<noteq> CHR ''X''"
proof -
  from assms have "d = 0 \<or> d = 1 \<or> d = 2 \<or> d = 3 \<or> d = 4 \<or> d = 5 \<or> d = 6 \<or> d = 7 \<or> d = 8 \<or> d = 9"
    by arith
  then have "digit_char d \<in> set ''0123456789''"
    by (elim disjE) (simp_all add: digit_char_def)
  then show "\<not> StrWhiteSpaceChar (digit_char d)"
    and "digit_char d \<noteq> CHR ''+''" and "digit_char d \<noteq> CHR ''-''"
    and "digit_char d \<noteq> CHR ''x''" and "digit_char d \<noteq> CHR ''X''"
    by (auto simp: StrWhiteSpaceChar_def)
  from assms show "is_radix_digit 10 (digit_char d)"
    by (simp add: is_radix_digit_def digit_value_digit_char)
qed

lemma digits_value_snoc:
  "digits_value R (Z @ [c]) = digits_value R Z * R + (case digit_value c of None \<Rightarrow> 0 | Some d \<Rightarrow> d)"
  by (simp add: digits_value_def)

lemma nat_to_string_value: "digits_value 10 (nat_to_string n) = n"
proof (induction n rule: nat_to_string.induct)
  case (1 n)
  show ?case
  proof (cases "n < 10")
    case True
    then show ?thesis
      by (subst nat_to_string.simps) (simp add: digits_value_def digit_value_digit_char)
  next
    case False
    with 1 have "digits_value 10 (nat_to_string (n div 10)) = n div 10" by simp
    with False show ?thesis
      by (subst nat_to_string.simps) (simp add: digits_value_snoc digit_value_digit_char)
  qed
qed

lemma nat_to_string_digits:
  "nat_to_string n \<noteq> [] \<and> (\<forall>c\<in>set (nat_to_string n). \<exists>d<10. c = digit_char d)"
proof (induction n rule: nat_to_string.induct)
  case (1 n)
  show ?case
  proof (cases "n < 10")
    case True
    then have "nat_to_string n = [digit_char n]"
      by (subst nat_to_string.simps) simp
    with True show ?thesis by auto
  next
    case False
    with 1 have IH: "\<forall>c\<in>set (nat_to_string (n div 10)). \<exists>d<10. c = digit_char d" by simp
    have last: "\<exists>d<10. digit_char (n mod 10) = digit_char d"
      by (rule exI [of _ "n mod 10"]) simp
    from False have "nat_to_string n = nat_to_string (n div 10) @ [digit_char (n mod 10)]"
      by (subst nat_to_string.simps) simp
    with IH last show ?thesis by auto
  qed
qed

lemma parseInt_string_digits:
  assumes "Z \<noteq> []" and "\<forall>c\<in>set Z. \<exists>d<10. c = digit_char d"
  shows "parseInt_string Z = Some (int (digits_value 10 Z))"
    and "parseInt_string (CHR ''-'' # Z) = Some (- int (digits_value 10 Z))"
proof -
  from assms obtain a rest where Z: "Z = a # rest" by (cases Z) auto
  have "is_radix_digit 10 c" if "c \<in> set Z" for c
  proof -
    from that assms(2) obtain d where "d < 10" and "c = digit_char d" by auto
    then show ?thesis by (simp add: digit_char_plain(1))
  qed
  then have tw: "takeWhile (is_radix_digit 10) Z = Z"
    by (simp add: takeWhile_eq_all_conv)
  from assms(2) Z obtain d where d: "d < 10" "a = digit_char d" by auto
  have a: "\<not> StrWhiteSpaceChar a" "a \<noteq> CHR ''+''" "a \<noteq> CHR ''-''"
    unfolding d(2) by (simp_all add: digit_char_plain(2-4) [OF d(1)])
  have nohex: "(case Z of a # b # rest \<Rightarrow> a = CHR ''0'' \<and> (b = CHR ''x'' \<or> b = CHR ''X'') | _ \<Rightarrow> False) = False"
  proof (cases rest)
    case Nil
    then show ?thesis by (simp add: Z)
  next
    case (Cons b rest')
    with assms(2) Z obtain e where e: "e < 10" "b = digit_char e" by auto
    have "b \<noteq> CHR ''x''" "b \<noteq> CHR ''X''"
      unfolding e(2) by (simp_all add: digit_char_plain(5,6) [OF e(1)])
    then show ?thesis by (simp add: Z Cons)
  qed
  have S1: "dropWhile StrWhiteSpaceChar Z = Z"
    using a(1) by (simp add: Z)
  have hdZ: "hd Z = a" by (simp add: Z)
  show "parseInt_string Z = Some (int (digits_value 10 Z))"
    unfolding parseInt_string_def Let_def S1 hdZ
    using a(2,3) assms(1) by (simp only: nohex tw if_False simp_thms) simp
  have S1': "dropWhile StrWhiteSpaceChar (CHR ''-'' # Z) = CHR ''-'' # Z"
    by (simp add: StrWhiteSpaceChar_def)
  show "parseInt_string (CHR ''-'' # Z) = Some (- int (digits_value 10 Z))"
    unfolding parseInt_string_def Let_def S1'
    using assms(1) by (simp only: list.sel list.simps simp_thms if_True nohex tw if_False) simp
qed

text \<open>
  The decimal form of an integer reads back as that integer: a numeric
  \<open>expires_date_ms\<close> and a numeric string denote the same expiry.
\<close>

lemma parseInt_string_Number_toString: "parseInt_string (Number_toString n) = Some (sint n)"
proof (cases "sint n < 0")
  case True
  then show ?thesis
    using parseInt_string_digits(2) [of "nat_to_string (nat (- sint n))"]
      nat_to_string_digits [of "nat (- sint n)"]
    by (simp add: Number_toString_def nat_to_string_value)
next
  case False
  then show ?thesis
    using parseInt_string_digits(1) [of "nat_to_string (nat (sint n))"]
      nat_to_string_digits [of "nat (sint n)"]
    by (simp add: Number_toString_def nat_to_string_value)
qed

lemma parseInt_Number_toString: "parseInt (JNum n) = Inr (Some (sint n))"
  by (simp add: parseInt_def parseInt_string_Number_toString)

section \<open>Properties of validateReceipt\<close>

lemma validateReceipt_try_log:
  "snd (validateReceipt_try net pl []) = [(PRODUCTION_URL, pl)] \<or>
   snd (validateReceipt_try net pl []) = [(PRODUCTION_URL, pl), (SANDBOX_URL, pl)]"
  by (simp add: validateReceipt_try_def makeAppleRequest_def
      split: http_result.split sum.split prod.split)

lemma validateReceipt_log:
  "snd (validateReceipt env net rd ss) = snd (validateReceipt_try net (request_body env rd ss) [])"
  by (simp add: validateReceipt_def split: prod.split sum.split)

lemma urls_differ: "SANDBOX_URL \<noteq> PRODUCTION_URL"
  by (simp add: SANDBOX_URL_def PRODUCTION_URL_def)

lemma network_of_simps:
  "network_of a b PRODUCTION_URL pl = a" "network_of a b SANDBOX_URL pl = b"
  by (simp_all add: network_of_def urls_differ)

lemma Get_status_response_status: "Get (response_status n) ''status'' = Inr (JNum n)"
  by (simp add: response_status_def)

lemma Get_status_response_ok: "Get response_ok ''status'' = Inr (JNum 0)"
  by (simp add: response_ok_def)

text \<open>
  C1. When the production endpoint answers with status 21007 and the sandbox endpoint with
  status 0, \<open>validateReceipt\<close> returns success with environment sandbox and the sandbox
  response as data. Two requests are sent, to production first and to sandbox second, with
  the same body: the receipt data, the shared secret and \<open>exclude-old-transactions\<close> true.
\<close>

theorem validateReceipt_sandbox_verified:
  assumes "net PRODUCTION_URL (request_body env receiptData sharedSecret) = Body_parsed productionResult"
    and "Get productionResult ''status'' = Inr (JNum 21007)"
    and "net SANDBOX_URL (request_body env receiptData sharedSecret) = Body_parsed sandboxResult"
    and "Get sandboxResult ''status'' = Inr (JNum 0)"
  shows "validateReceipt env net receiptData sharedSecret =
      (\<lparr>success = True, environment = sandbox, error = None, data = sandboxResult\<rparr>,
       [(PRODUCTION_URL, request_body env receiptData sharedSecret),
        (SANDBOX_URL, request_body env receiptData sharedSecret)])
    \<and> request_body env receiptData sharedSecret =
      \<lparr>receipt_data = receiptData,
       password = (if sharedSecret = JUndefined then JStr (SHARED_SECRET env) else sharedSecret),
       exclude_old_transactions = True\<rparr>"
  using assms
  by (simp add: validateReceipt_def validateReceipt_try_def makeAppleRequest_def request_body_def)

theorem validateReceipt_sandbox_verified_witness:
  "validateReceipt None (network_of (Body_parsed (response_status 21007)) (Body_parsed response_ok))
     (JStr ''cmVjZWlwdA=='') (JStr ''secret'') =
     (\<lparr>success = True, environment = sandbox, error = None, data = response_ok\<rparr>,
      [(PRODUCTION_URL,
        \<lparr>receipt_data = JStr ''cmVjZWlwdA=='', password = JStr ''secret'',
         exclude_old_transactions = True\<rparr>),
       (SANDBOX_URL,
        \<lparr>receipt_data = JStr ''cmVjZWlwdA=='', password = JStr ''secret'',
         exclude_old_transactions = True\<rparr>)])"
  using validateReceipt_sandbox_verified
    [of "network_of (Body_parsed (response_status 21007)) (Body_parsed response_ok)"
        None "JStr ''cmVjZWlwdA==''" "JStr ''secret''" "response_status 21007" response_ok]
  by (simp add: network_of_simps Get_status_response_status Get_status_response_ok)

text \<open>
  C2. When the production endpoint answers with status 0, \<open>validateReceipt\<close> returns
  success with environment production and the production response as data, and the only
  request sent is the one to production.
\<close>

theorem validateReceipt_production_verified:
  assumes "net PRODUCTION_URL (request_body env receiptData sharedSecret) = Body_parsed productionResult"
    and "Get productionResult ''status'' = Inr (JNum 0)"
  shows "validateReceipt env net receiptData sharedSecret =
      (\<lparr>success = True, environment = production, error = None, data = productionResult\<rparr>,
       [(PRODUCTION_URL, request_body env receiptData sharedSecret)])"
  using assms
  by (simp add: validateReceipt_def validateReceipt_try_def makeAppleRequest_def)

theorem validateReceipt_production_verified_witness:
  "validateReceipt None (network_of (Body_parsed response_ok) (Body_parsed response_ok))
     (JStr ''cmVjZWlwdA=='') (JStr ''secret'') =
     (\<lparr>success = True, environment = production, error = None, data = response_ok\<rparr>,
      [(PRODUCTION_URL,
        \<lparr>receipt_data = JStr ''cmVjZWlwdA=='', password = JStr ''secret'',
         exclude_old_transactions = True\<rparr>)])"
  using validateReceipt_production_verified
    [of "network_of (Body_parsed response_ok) (Body_parsed response_ok)"
        None "JStr ''cmVjZWlwdA==''" "JStr ''secret''" response_ok]
  by (simp add: network_of_simps Get_status_response_ok request_body_def)

text \<open>
  C3. When the production endpoint answers with a numeric status other than 0 and 21007,
  \<open>validateReceipt\<close> returns failure with environment production, the error text ends
  in the decimal form of that status, and the only request sent is the one to production.
\<close>

theorem validateReceipt_production_rejected:
  assumes "net PRODUCTION_URL (request_body env receiptData sharedSecret) = Body_parsed productionResult"
    and "Get productionResult ''status'' = Inr (JNum n)"
    and "n \<noteq> 0" and "n \<noteq> 21007"
  shows "validateReceipt env net receiptData sharedSecret =
      (\<lparr>success = False, environment = production,
        error = Some (''Production validation failed with status: '' @ Number_toString n),
        data = productionResult\<rparr>,
       [(PRODUCTION_URL, request_body env receiptData sharedSecret)])"
  using assms
  by (simp add: validateReceipt_def validateReceipt_try_def makeAppleRequest_def)

theorem validateReceipt_production_rejected_witness:
  "validateReceipt None (network_of (Body_parsed (response_status 21002)) (Body_parsed response_ok))
     (JStr ''cmVjZWlwdA=='') (JStr ''secret'') =
     (\<lparr>success = False, environment = production,
       error = Some ''Production validation failed with status: 21002'',
       data = response_status 21002\<rparr>,
      [(PRODUCTION_URL,
        \<lparr>receipt_data = JStr ''cmVjZWlwdA=='', password = JStr ''secret'',
         exclude_old_transactions = True\<rparr>)])"
  using validateReceipt_production_rejected
    [of "network_of (Body_parsed (response_status 21002)) (Body_parsed response_ok)"
        None "JStr ''cmVjZWlwdA==''" "JStr ''secret''" "response_status 21002" 21002]
  by (simp add: network_of_simps Get_status_response_status request_body_def
      Number_toString_def nat_to_string.simps digit_char_def)

text \<open>
  C4, as the code has it. When the production endpoint answers with status 21007 and the
  sandbox endpoint with a status other than 0 that converts to a string (every number,
  string, boolean, \<open>null\<close> and a missing status do), \<open>validateReceipt\<close> returns failure
  with environment sandbox, and the error text is \<open>Sandbox validation failed with status: \<close>
  followed by the status as the template literal prints it: a numeric status in decimal.
\<close>

theorem validateReceipt_sandbox_rejected:
  assumes "net PRODUCTION_URL (request_body env receiptData sharedSecret) = Body_parsed productionResult"
    and "Get productionResult ''status'' = Inr (JNum 21007)"
    and "net SANDBOX_URL (request_body env receiptData sharedSecret) = Body_parsed sandboxResult"
    and "Get sandboxResult ''status'' = Inr sandboxStatus"
    and "sandboxStatus \<noteq> JNum 0"
    and "ToString sandboxStatus = Inr printed"
  shows "validateReceipt env net receiptData sharedSecret =
      (\<lparr>success = False, environment = sandbox,
        error = Some (''Sandbox validation failed with status: '' @ printed),
        data = sandboxResult\<rparr>,
       [(PRODUCTION_URL, request_body env receiptData sharedSecret),
        (SANDBOX_URL, request_body env receiptData sharedSecret)])
    \<and> (\<forall>n. sandboxStatus = JNum n \<longrightarrow> printed = Number_toString n)"
proof -
  from assms(5) have "\<not> strict_eq sandboxStatus (JNum 0)"
    by (cases sandboxStatus) simp_all
  with assms show ?thesis
    by (auto simp add: validateReceipt_def validateReceipt_try_def makeAppleRequest_def)
qed

theorem validateReceipt_sandbox_rejected_witness:
  "validateReceipt None
     (network_of (Body_parsed (response_status 21007)) (Body_parsed (response_status 21003)))
     (JStr ''cmVjZWlwdA=='') (JStr ''secret'') =
     (\<lparr>success = False, environment = sandbox,
       error = Some ''Sandbox validation failed with status: 21003'',
       data = response_status 21003\<rparr>,
      [(PRODUCTION_URL,
        \<lparr>receipt_data = JStr ''cmVjZWlwdA=='', password = JStr ''secret'',
         exclude_old_transactions = True\<rparr>),
       (SANDBOX_URL,
        \<lparr>receipt_data = JStr ''cmVjZWlwdA=='', password = JStr ''secret'',
         exclude_old_transactions = True\<rparr>)])
   \<and> validateReceipt None
     (network_of (Body_parsed (response_status 21007)) (Body_parsed response_without_status))
     (JStr ''cmVjZWlwdA=='') (JStr ''secret'') =
     (\<lparr>success = False, environment = sandbox,
       error = Some ''Sandbox validation failed with status: undefined'',
       data = response_without_status\<rparr>,
      [(PRODUCTION_URL,
        \<lparr>receipt_data = JStr ''cmVjZWlwdA=='', password = JStr ''secret'',
         exclude_old_transactions = True\<rparr>),
       (SANDBOX_URL,
        \<lparr>receipt_data = JStr ''cmVjZWlwdA=='', password = JStr ''secret'',
         exclude_old_transactions = True\<rparr>)])"
  using validateReceipt_sandbox_rejected
    [of "network_of (Body_parsed (response_status 21007)) (Body_parsed (response_status 21003))"
        None "JStr ''cmVjZWlwdA==''" "JStr ''secret''" "response_status 21007"
        "response_status 21003" "JNum 21003" "''21003''"]
    validateReceipt_sandbox_rejected
    [of "network_of (Body_parsed (response_status 21007)) (Body_parsed response_without_status)"
        None "JStr ''cmVjZWlwdA==''" "JStr ''secret''" "response_status 21007"
        response_without_status JUndefined "''undefined''"]
  by (simp add: network_of_simps Get_status_response_status request_body_def
      response_without_status_def Number_toString_def nat_to_string.simps digit_char_def)

text \<open>
  C4, as the claim words it, fails twice. With production status 21007 and sandbox status
  21002 the error text is not \<open>sandbox validation failed with status 21002\<close>: the text of
  the code starts with a capital and has a colon before the status. And a sandbox status
  that is an object with an own property \<open>toString\<close> is not 0, yet the template literal
  throws on it and the result has environment unknown, not sandbox.
\<close>

theorem validateReceipt_sandbox_reason_counterexample:
  "Get (response_status 21007) ''status'' = Inr (JNum 21007) \<and>
   Get (response_status 21002) ''status'' = Inr (JNum 21002) \<and>
   error (fst (validateReceipt None
     (network_of (Body_parsed (response_status 21007)) (Body_parsed (response_status 21002)))
     (JStr ''cmVjZWlwdA=='') (JStr ''secret'')))
     = Some ''Sandbox validation failed with status: 21002'' \<and>
   error (fst (validateReceipt None
     (network_of (Body_parsed (response_status 21007)) (Body_parsed (response_status 21002)))
     (JStr ''cmVjZWlwdA=='') (JStr ''secret'')))
     \<noteq> Some ''sandbox validation failed with status 21002'' \<and>
   Get response_status_unprintable ''status'' = Inr (JObj [(''toString'', JNum 0)]) \<and>
   fst (validateReceipt None
     (network_of (Body_parsed (response_status 21007)) (Body_parsed response_status_unprintable))
     (JStr ''cmVjZWlwdA=='') (JStr ''secret''))
     = \<lparr>success = False, environment = unknown,
        error = Some ''Cannot convert object to primitive value'', data = JUndefined\<rparr>"
  by (simp add: validateReceipt_def validateReceipt_try_def makeAppleRequest_def
      network_of_simps response_status_def response_status_unprintable_def
      Number_toString_def nat_to_string.simps digit_char_def)

text \<open>
  C5. A failure of the transport, on either call, ends in failure with environment unknown
  and the message of the error \<open>makeAppleRequest\<close> rejects with as the error text: a
  request error or an unparseable body on the production call, with the production request
  the only one sent, and the same on the sandbox call after production status 21007. More
  generally every exception raised inside the \<open>try\<close> block becomes such a result, so none
  leaves \<open>validateReceipt\<close>.
\<close>

theorem validateReceipt_transport_failure:
  "(net PRODUCTION_URL (request_body env receiptData sharedSecret) = Request_error m \<longrightarrow>
      validateReceipt env net receiptData sharedSecret =
        (\<lparr>success = False, environment = unknown, error = Some (''Request failed: '' @ m),
          data = JUndefined\<rparr>,
         [(PRODUCTION_URL, request_body env receiptData sharedSecret)]))
   \<and> (net PRODUCTION_URL (request_body env receiptData sharedSecret) = Body_unparseable m \<longrightarrow>
      validateReceipt env net receiptData sharedSecret =
        (\<lparr>success = False, environment = unknown,
          error = Some (''Failed to parse Apple response: '' @ m), data = JUndefined\<rparr>,
         [(PRODUCTION_URL, request_body env receiptData sharedSecret)]))
   \<and> (net PRODUCTION_URL (request_body env receiptData sharedSecret) = Body_parsed productionResult \<and>
      Get productionResult ''status'' = Inr (JNum 21007) \<and>
      net SANDBOX_URL (request_body env receiptData sharedSecret) = Request_error m \<longrightarrow>
      validateReceipt env net receiptData sharedSecret =
        (\<lparr>success = False, environment = unknown, error = Some (''Request failed: '' @ m),
          data = JUndefined\<rparr>,
         [(PRODUCTION_URL, request_body env receiptData sharedSecret),
          (SANDBOX_URL, request_body env receiptData sharedSecret)]))
   \<and> (net PRODUCTION_URL (request_body env receiptData sharedSecret) = Body_parsed productionResult \<and>
      Get productionResult ''status'' = Inr (JNum 21007) \<and>
      net SANDBOX_URL (request_body env receiptData sharedSecret) = Body_unparseable m \<longrightarrow>
      validateReceipt env net receiptData sharedSecret =
        (\<lparr>success = False, environment = unknown,
          error = Some (''Failed to parse Apple response: '' @ m), data = JUndefined\<rparr>,
         [(PRODUCTION_URL, request_body env receiptData sharedSecret),
          (SANDBOX_URL, request_body env receiptData sharedSecret)]))
   \<and> (fst (validateReceipt_try net (request_body env receiptData sharedSecret) []) = Inl e \<longrightarrow>
      fst (validateReceipt env net receiptData sharedSecret) =
        \<lparr>success = False, environment = unknown, error = Some (message e), data = JUndefined\<rparr>)"
  by (simp add: validateReceipt_def validateReceipt_try_def makeAppleRequest_def
      split: prod.split sum.split http_result.split)

theorem validateReceipt_transport_failure_witness:
  "validateReceipt None
     (network_of (Request_error ''connect ECONNREFUSED'') (Body_parsed response_ok))
     (JStr ''cmVjZWlwdA=='') (JStr ''secret'') =
     (\<lparr>success = False, environment = unknown,
       error = Some ''Request failed: connect ECONNREFUSED'', data = JUndefined\<rparr>,
      [(PRODUCTION_URL,
        \<lparr>receipt_data = JStr ''cmVjZWlwdA=='', password = JStr ''secret'',
         exclude_old_transactions = True\<rparr>)])
   \<and> validateReceipt None
     (network_of (Body_unparseable ''Unexpected token < in JSON at position 0'') (Body_parsed response_ok))
     (JStr ''cmVjZWlwdA=='') (JStr ''secret'') =
     (\<lparr>success = False, environment = unknown,
       error = Some ''Failed to parse Apple response: Unexpected token < in JSON at position 0'',
       data = JUndefined\<rparr>,
      [(PRODUCTION_URL,
        \<lparr>receipt_data = JStr ''cmVjZWlwdA=='', password = JStr ''secret'',
         exclude_old_transactions = True\<rparr>)])
   \<and> validateReceipt None
     (network_of (Body_parsed (response_status 21007)) (Request_error ''socket hang up''))
     (JStr ''cmVjZWlwdA=='') (JStr ''secret'') =
     (\<lparr>success = False, environment = unknown,
       error = Some ''Request failed: socket hang up'', data = JUndefined\<rparr>,
      [(PRODUCTION_URL,
        \<lparr>receipt_data = JStr ''cmVjZWlwdA=='', password = JStr ''secret'',
         exclude_old_transactions = True\<rparr>),
       (SANDBOX_URL,
        \<lparr>receipt_data = JStr ''cmVjZWlwdA=='', password = JStr ''secret'',
         exclude_old_transactions = True\<rparr>)])"
  using validateReceipt_transport_failure
    [of "network_of (Request_error ''connect ECONNREFUSED'') (Body_parsed response_ok)"
        None "JStr ''cmVjZWlwdA==''" "JStr ''secret''" "''connect ECONNREFUSED''"]
    validateReceipt_transport_failure
    [of "network_of (Body_unparseable ''Unexpected token < in JSON at position 0'') (Body_parsed response_ok)"
        None "JStr ''cmVjZWlwdA==''" "JStr ''secret''" "''Unexpected token < in JSON at position 0''"]
    validateReceipt_transport_failure
    [of "network_of (Body_parsed (response_status 21007)) (Request_error ''socket hang up'')"
        None "JStr ''cmVjZWlwdA==''" "JStr ''secret''" "''socket hang up''" "response_status 21007"]
  by (simp add: network_of_simps Get_status_response_status request_body_def)

text \<open>
  C10. Called with no shared secret (the argument is \<open>undefined\<close>) while the environment
  variable is unset, \<open>validateReceipt\<close> sends at least one request, and the password of
  every request it sends is the default string of line 12, which is not empty.
\<close>

theorem validateReceipt_default_secret:
  "snd (validateReceipt None net receiptData JUndefined) \<noteq> [] \<and>
   password ` snd ` set (snd (validateReceipt None net receiptData JUndefined))
     = {JStr ''a374b8c7a3b346b5ab7bfc234e69924d''} \<and>
   SHARED_SECRET None = ''a374b8c7a3b346b5ab7bfc234e69924d'' \<and>
   SHARED_SECRET None \<noteq> []"
  using validateReceipt_try_log [of net "request_body None receiptData JUndefined"]
  by (auto simp add: validateReceipt_log request_body_def SHARED_SECRET_def)

theorem validateReceipt_default_secret_witness:
  "map (password \<circ> snd) (snd (validateReceipt None
     (network_of (Body_parsed (response_status 21007)) (Body_parsed response_ok))
     (JStr ''cmVjZWlwdA=='') JUndefined))
     = [JStr ''a374b8c7a3b346b5ab7bfc234e69924d'', JStr ''a374b8c7a3b346b5ab7bfc234e69924d'']"
  using validateReceipt_default_secret
    [of "network_of (Body_parsed (response_status 21007)) (Body_parsed response_ok)"
        "JStr ''cmVjZWlwdA==''"]
  by (simp add: validateReceipt_def validateReceipt_try_def makeAppleRequest_def
      network_of_simps response_status_def response_ok_def request_body_def SHARED_SECRET_def)

section \<open>Properties of hasActiveSubscription\<close>

lemma ToString_primitive:
  "(\<forall>xs. v \<noteq> JArr xs) \<and> (\<forall>fs. v \<noteq> JObj fs) \<Longrightarrow> \<exists>s. ToString v = Inr s"
  by (cases v) simp_all

lemma is_transaction_reads:
  assumes "is_transaction t"
  obtains p ms s where "Get t ''product_id'' = Inr (JStr p)"
    and "Get t ''expires_date_ms'' = Inr ms" and "ToString ms = Inr s"
proof (cases t)
  case (JObj kvs)
  with assms obtain p where p: "map_of kvs ''product_id'' = Some (JStr p)"
    by (auto split: option.splits js.splits)
  define ms where "ms = (case map_of kvs ''expires_date_ms'' of None \<Rightarrow> JUndefined | Some v \<Rightarrow> v)"
  from assms JObj have "(\<forall>xs. ms \<noteq> JArr xs) \<and> (\<forall>fs. ms \<noteq> JObj fs)"
    by (auto simp: ms_def split: option.splits js.splits)
  then obtain s where "ToString ms = Inr s"
    using ToString_primitive [of ms] by blast
  with p JObj that [of p ms s] show thesis
    by (simp add: ms_def)
qed (use assms in simp_all)

lemma scan_latest_step:
  assumes "is_transaction t"
  shows "scan_latest_receipt_info now pid (t # ts) =
     (if product_matches t pid \<and> greater_than (expiresAtEpochMillis t) now then Inr True
      else scan_latest_receipt_info now pid ts)"
proof -
  from assms obtain p ms s where "Get t ''product_id'' = Inr (JStr p)"
    and "Get t ''expires_date_ms'' = Inr ms" and "ToString ms = Inr s"
    by (rule is_transaction_reads)
  then show ?thesis
    by (simp add: product_matches_def expiresAtEpochMillis_def parseInt_def)
qed

lemma scan_latest_wf:
  "list_all is_transaction ts \<Longrightarrow>
   scan_latest_receipt_info now pid ts =
     Inr (\<exists>t\<in>set ts. product_matches t pid \<and> greater_than (expiresAtEpochMillis t) now)"
proof (induction ts)
  case Nil
  then show ?case by simp
next
  case (Cons t ts)
  then have "is_transaction t" and "list_all is_transaction ts" by simp_all
  with Cons.IH show ?case
    by (simp only: scan_latest_step) auto
qed

lemma scan_in_app_step:
  assumes "is_transaction t"
  shows "scan_in_app pid (t # ts) =
     (if product_matches t pid then Inr True else scan_in_app pid ts)"
proof -
  from assms obtain p ms s where "Get t ''product_id'' = Inr (JStr p)"
    by (rule is_transaction_reads)
  then show ?thesis
    by (simp add: product_matches_def)
qed

lemma scan_in_app_wf:
  "list_all is_transaction ts \<Longrightarrow>
   scan_in_app pid ts = Inr (\<exists>t\<in>set ts. product_matches t pid)"
proof (induction ts)
  case Nil
  then show ?case by simp
next
  case (Cons t ts)
  then have "is_transaction t" and "list_all is_transaction ts" by simp_all
  with Cons.IH show ?case
    by (simp only: scan_in_app_step) auto
qed

lemma in_app_fallback_wf:
  assumes "is_receipt_record receipt"
  shows "in_app_fallback receipt pid =
     Inr (\<exists>t\<in>set (case Get receipt ''in_app'' of Inr (JArr xs) \<Rightarrow> xs | _ \<Rightarrow> []). product_matches t pid)"
proof (cases receipt)
  case (JObj kvs)
  define ia where "ia = (case map_of kvs ''in_app'' of None \<Rightarrow> JUndefined | Some v \<Rightarrow> v)"
  from assms JObj have seq: "is_transaction_sequence ia" by (simp add: ia_def)
  have g: "Get receipt ''in_app'' = Inr ia" by (simp add: JObj ia_def)
  from seq show ?thesis
    by (cases ia) (simp_all add: in_app_fallback_def g scan_in_app_wf)
qed (use assms in simp_all)

lemma hasActiveSubscription_wf:
  assumes "well_formed_verified vr"
  shows "fst (hasActiveSubscription c vr pid) =
     Inr ((\<exists>t\<in>set (latestTransactions vr).
             product_matches t pid \<and> greater_than (expiresAtEpochMillis t) (shd c)) \<or>
          (\<exists>t\<in>set (inAppPurchases vr). product_matches t pid))"
proof -
  from assms obtain kvs where d: "data vr = JObj kvs" and s: "success vr"
    by (auto simp: well_formed_verified_def split: js.splits)
  show ?thesis
  proof (cases "map_of kvs ''receipt''")
    case None
    with d s show ?thesis
      by (simp add: hasActiveSubscription_def latestTransactions_def inAppPurchases_def
          transactions_of_def)
  next
    case (Some receipt)
    with assms d have rr: "is_receipt_record receipt"
      by (simp add: well_formed_verified_def)
    then obtain fs where r: "receipt = JObj fs" by (cases receipt) simp_all
    define lri where "lri = (case map_of fs ''latest_receipt_info'' of None \<Rightarrow> JUndefined | Some v \<Rightarrow> v)"
    from rr r have seq: "is_transaction_sequence lri" by (simp add: lri_def)
    have g: "Get (data vr) ''receipt'' = Inr receipt" by (simp add: d Some)
    have gl: "Get receipt ''latest_receipt_info'' = Inr lri" by (simp add: r lri_def)
    have t: "truthy receipt" by (simp add: r)
    from seq show ?thesis
    proof (cases lri)
      case JUndefined
      then show ?thesis
        using s g gl t in_app_fallback_wf [OF rr, of pid]
        by (simp add: hasActiveSubscription_def latestTransactions_def inAppPurchases_def
            transactions_of_def)
    next
      case (JArr ts)
      with seq have "list_all is_transaction ts" by simp
      then show ?thesis
        using s g gl t JArr in_app_fallback_wf [OF rr, of pid]
        by (auto simp add: hasActiveSubscription_def latestTransactions_def inAppPurchases_def
            transactions_of_def Date_now_def scan_latest_wf split: bool.splits)
    qed simp_all
  qed
qed

lemma decimal_digit_char:
  assumes "digit_value c = Some d" and "d < 10"
  shows "c \<in> set ''0123456789''"
proof -
  define n where "n = (of_char c :: nat)"
  from assms have "48 \<le> n \<and> n \<le> 57"
    by (auto simp: digit_value_def Let_def n_def split: if_splits)
  then have "n = 48 \<or> n = 49 \<or> n = 50 \<or> n = 51 \<or> n = 52 \<or> n = 53 \<or> n = 54 \<or> n = 55 \<or>
      n = 56 \<or> n = 57" by arith
  then have "n \<in> (of_char :: char \<Rightarrow> nat) ` set ''0123456789''" by auto
  then obtain c' where "c' \<in> set ''0123456789''" and "(of_char c :: nat) = of_char c'"
    unfolding n_def by blast
  then show ?thesis by (simp only: of_char_eq_iff)
qed

lemma hexadecimal_digit_char:
  assumes "digit_value c = Some d" and "d < 16"
  shows "c \<in> set ''0123456789abcdefABCDEF''"
proof -
  define n where "n = (of_char c :: nat)"
  from assms have "(48 \<le> n \<and> n \<le> 57) \<or> (97 \<le> n \<and> n \<le> 102) \<or> (65 \<le> n \<and> n \<le> 70)"
    by (auto simp: digit_value_def Let_def n_def split: if_splits)
  then have "n = 48 \<or> n = 49 \<or> n = 50 \<or> n = 51 \<or> n = 52 \<or> n = 53 \<or> n = 54 \<or> n = 55 \<or>
      n = 56 \<or> n = 57 \<or> n = 97 \<or> n = 98 \<or> n = 99 \<or> n = 100 \<or> n = 101 \<or> n = 102 \<or>
      n = 65 \<or> n = 66 \<or> n = 67 \<or> n = 68 \<or> n = 69 \<or> n = 70" by arith
  then have "n \<in> (of_char :: char \<Rightarrow> nat) ` set ''0123456789abcdefABCDEF''" by auto
  then obtain c' where "c' \<in> set ''0123456789abcdefABCDEF''" and "(of_char c :: nat) = of_char c'"
    unfolding n_def by blast
  then show ?thesis by (simp only: of_char_eq_iff)
qed

lemma is_radix_digit_10: "is_radix_digit 10 c = (c \<in> set ''0123456789'')"
proof
  assume "is_radix_digit 10 c"
  then show "c \<in> set ''0123456789''"
    using decimal_digit_char [of c] by (auto simp: is_radix_digit_def split: option.splits)
next
  assume "c \<in> set ''0123456789''"
  then show "is_radix_digit 10 c"
    by (auto simp: is_radix_digit_def digit_value_def)
qed

lemma is_radix_digit_16: "is_radix_digit 16 c = (c \<in> set ''0123456789abcdefABCDEF'')"
proof
  assume "is_radix_digit 16 c"
  then show "c \<in> set ''0123456789abcdefABCDEF''"
    using hexadecimal_digit_char [of c] by (auto simp: is_radix_digit_def split: option.splits)
next
  assume "c \<in> set ''0123456789abcdefABCDEF''"
  then show "is_radix_digit 16 c"
    by (auto simp: is_radix_digit_def digit_value_def)
qed

lemma takeWhile_Nil_iff: "(takeWhile P xs = []) = (case xs of [] \<Rightarrow> True | x # ys \<Rightarrow> \<not> P x)"
  by (cases xs) simp_all


lemma parseInt_string_None_iff: "(parseInt_string s = None) = (\<not> starts_with_number s)"
proof -
  define r where "r = dropWhile StrWhiteSpaceChar s"
  have ws: "dropWhile (\<lambda>c. c \<in> set [CHR 0x09, CHR 0x0A, CHR 0x0B, CHR 0x0C, CHR 0x0D, CHR 0x20, CHR 0xA0]) s = r"
    unfolding r_def by (rule arg_cong [of _ _ "\<lambda>P. dropWhile P s"]) (rule ext, simp add: StrWhiteSpaceChar_def)
  define u where "u = (case r of [] \<Rightarrow> [] | c # cs \<Rightarrow> if c = CHR ''+'' \<or> c = CHR ''-'' then cs else r)"
  have S2: "(if r \<noteq> [] \<and> (hd r = CHR ''+'' \<or> hd r = CHR ''-'') then tl r else r) = u"
    by (cases r) (simp_all add: u_def)
  have L: "(parseInt_string s = None) =
      (takeWhile (is_radix_digit
          (if (case u of a # b # rest \<Rightarrow> a = CHR ''0'' \<and> (b = CHR ''x'' \<or> b = CHR ''X'') | _ \<Rightarrow> False)
           then 16 else 10))
        (if (case u of a # b # rest \<Rightarrow> a = CHR ''0'' \<and> (b = CHR ''x'' \<or> b = CHR ''X'') | _ \<Rightarrow> False)
         then drop 2 u else u) = [])"
    unfolding parseInt_string_def Let_def r_def [symmetric] S2 by simp
  have R: "starts_with_number s =
      (case u of
         [] \<Rightarrow> False
       | [a] \<Rightarrow> a \<in> set ''0123456789''
       | a # b # w \<Rightarrow>
           if a = CHR ''0'' \<and> (b = CHR ''x'' \<or> b = CHR ''X'')
           then (case w of [] \<Rightarrow> False | h # t \<Rightarrow> h \<in> set ''0123456789abcdefABCDEF'')
           else a \<in> set ''0123456789'')"
    unfolding starts_with_number_def Let_def ws u_def ..
  show ?thesis
  proof (cases u)
    case Nil
    then show ?thesis unfolding L R by simp
  next
    case (Cons a v)
    show ?thesis
    proof (cases v)
      case Nil
      with Cons show ?thesis unfolding L R by (simp add: is_radix_digit_10)
    next
      case (Cons b w)
      show ?thesis
      proof (cases "a = CHR ''0'' \<and> (b = CHR ''x'' \<or> b = CHR ''X'')")
        case True
        with \<open>u = a # v\<close> Cons show ?thesis
          unfolding L R by (cases w) (simp_all add: is_radix_digit_16)
      next
        case False
        with \<open>u = a # v\<close> Cons show ?thesis
          unfolding L R by (auto simp add: is_radix_digit_10)
      qed
    qed
  qed
qed

lemma is_transaction_expiry:
  assumes "is_transaction t"
  obtains ms where "Get t ''expires_date_ms'' = Inr ms"
    and "\<forall>xs. ms \<noteq> JArr xs" and "\<forall>fs. ms \<noteq> JObj fs"
proof (cases t)
  case (JObj kvs)
  define ms where "ms = (case map_of kvs ''expires_date_ms'' of None \<Rightarrow> JUndefined | Some v \<Rightarrow> v)"
  from assms JObj have "(\<forall>xs. ms \<noteq> JArr xs) \<and> (\<forall>fs. ms \<noteq> JObj fs)"
    by (auto simp: ms_def split: option.splits js.splits)
  with JObj that [of ms] show thesis
    by (simp add: ms_def)
qed (use assms in simp_all)

lemma parseInt_words:
  "parseInt JUndefined = Inr None" "parseInt JNull = Inr None"
  "parseInt (JBool True) = Inr None" "parseInt (JBool False) = Inr None"
  by (simp_all add: parseInt_def parseInt_string_None_iff starts_with_number_def)

lemma expiry_None_iff:
  assumes "is_transaction t"
  shows "(expiresAtEpochMillis t = None) = no_leading_number (expires_date_ms t)"
proof -
  from assms obtain ms where g: "Get t ''expires_date_ms'' = Inr ms"
    and prim: "\<forall>xs. ms \<noteq> JArr xs" "\<forall>fs. ms \<noteq> JObj fs"
    by (rule is_transaction_expiry)
  have "(parseInt ms = Inr None) = no_leading_number ms"
  proof (cases ms)
    case (JBool b)
    then show ?thesis by (cases b) (simp_all add: parseInt_words)
  next
    case (JNum n)
    then show ?thesis by (simp add: parseInt_Number_toString)
  next
    case (JStr s)
    then show ?thesis by (simp add: parseInt_def parseInt_string_None_iff)
  qed (use prim in \<open>simp_all add: parseInt_words\<close>)
  moreover obtain r where "parseInt ms = Inr r"
    using prim ToString_primitive [of ms] by (auto simp: parseInt_def)
  ultimately show ?thesis
    using g by (simp add: expiresAtEpochMillis_def expires_date_ms_def)
qed

lemma is_transaction_product:
  assumes "is_transaction t"
  shows "product_matches t (JStr p) = (Get t ''product_id'' = Inr (JStr p))"
proof -
  from assms obtain q ms s where "Get t ''product_id'' = Inr (JStr q)"
    by (rule is_transaction_reads)
  then show ?thesis by (simp add: product_matches_def)
qed

lemma greater_than_iff: "greater_than x now = (\<exists>n. x = Some n \<and> now < n)"
  by (cases x) simp_all

lemma well_formed_sequences:
  assumes "well_formed_verified vr"
  shows "list_all is_transaction (latestTransactions vr)"
    and "list_all is_transaction (inAppPurchases vr)"
proof -
  from assms obtain kvs where d: "data vr = JObj kvs"
    by (auto simp: well_formed_verified_def split: js.splits)
  have "list_all is_transaction (transactions_of vr name)"
    if "name = ''latest_receipt_info'' \<or> name = ''in_app''" for name
  proof (cases "map_of kvs ''receipt''")
    case None
    with d show ?thesis by (simp add: transactions_of_def)
  next
    case (Some receipt)
    with assms d have rr: "is_receipt_record receipt"
      by (simp add: well_formed_verified_def)
    then obtain fs where r: "receipt = JObj fs" by (cases receipt) simp_all
    define v where "v = (case map_of fs name of None \<Rightarrow> JUndefined | Some x \<Rightarrow> x)"
    from rr r that have "is_transaction_sequence v" by (auto simp: v_def)
    then have "list_all is_transaction (case v of JArr xs \<Rightarrow> xs | _ \<Rightarrow> [])"
      by (cases v) simp_all
    with d Some r show ?thesis
      by (simp add: transactions_of_def v_def split: js.splits)
  qed
  then show "list_all is_transaction (latestTransactions vr)"
    and "list_all is_transaction (inAppPurchases vr)"
    by (simp_all add: latestTransactions_def inAppPurchases_def)
qed

lemma hasActiveSubscription_characterised:
  assumes "well_formed_verified vr"
  shows "fst (hasActiveSubscription c vr (JStr p)) =
     Inr ((\<exists>t\<in>set (latestTransactions vr). \<exists>n.
             Get t ''product_id'' = Inr (JStr p) \<and> expiresAtEpochMillis t = Some n \<and> shd c < n) \<or>
          (\<exists>q\<in>set (inAppPurchases vr). Get q ''product_id'' = Inr (JStr p)))"
proof -
  have "(\<exists>t\<in>set (latestTransactions vr).
          product_matches t (JStr p) \<and> greater_than (expiresAtEpochMillis t) (shd c)) =
        (\<exists>t\<in>set (latestTransactions vr). \<exists>n.
          Get t ''product_id'' = Inr (JStr p) \<and> expiresAtEpochMillis t = Some n \<and> shd c < n)"
    using well_formed_sequences(1) [OF assms]
    by (auto simp: list_all_iff is_transaction_product greater_than_iff)
  moreover have "(\<exists>q\<in>set (inAppPurchases vr). product_matches q (JStr p)) =
        (\<exists>q\<in>set (inAppPurchases vr). Get q ''product_id'' = Inr (JStr p))"
    using well_formed_sequences(2) [OF assms]
    by (auto simp: list_all_iff is_transaction_product)
  ultimately show ?thesis
    by (simp only: hasActiveSubscription_wf [OF assms])
qed

lemma hasActiveSubscription_clock:
  "snd (hasActiveSubscription c vr pid) = c \<or> snd (hasActiveSubscription c vr pid) = stl c"
  by (simp add: hasActiveSubscription_def Date_now_def split: sum.split bool.split)

lemma hasActiveSubscription_reads_clock:
  assumes "success vr" and "latestTransactions vr \<noteq> []"
  shows "snd (hasActiveSubscription c vr pid) = stl c"
proof -
  from assms(2) obtain receipt ts where g: "Get (data vr) ''receipt'' = Inr receipt"
    and gl: "Get receipt ''latest_receipt_info'' = Inr (JArr ts)"
    by (auto simp: latestTransactions_def transactions_of_def split: sum.splits js.splits)
  from gl have "truthy receipt" by (cases receipt) simp_all
  with assms(1) g gl show ?thesis
    by (simp add: hasActiveSubscription_def Date_now_def split: sum.split bool.split)
qed

text \<open>
  A transaction that is \<open>null\<close> is outside the data model, and the scan then throws:
  the conditions of well-formedness in the properties below are needed.
\<close>

lemma hasActiveSubscription_null_transaction_throws:
  "\<exists>e. fst (hasActiveSubscription c (verified_with (JObj [(''latest_receipt_info'', JArr [JNull])])) pid)
     = Inl (TypeError e)"
  by (simp add: hasActiveSubscription_def verified_with_def Date_now_def)

lemma expiry_of_decimal:
  assumes "expires_date_ms t = JStr (Number_toString n) \<or> expires_date_ms t = JNum n"
  shows "expiresAtEpochMillis t = Some (sint n)"
proof -
  from assms have "Get t ''expires_date_ms'' = Inr (JStr (Number_toString n)) \<or>
      Get t ''expires_date_ms'' = Inr (JNum n)"
    by (auto simp: expires_date_ms_def split: sum.splits)
  then show ?thesis
    by (auto simp: expiresAtEpochMillis_def parseInt_Number_toString parseInt_def
        parseInt_string_Number_toString)
qed

text \<open>
  C6. For a well-formed verified result and a product id \<open>p\<close>: if some transaction of
  \<open>latest_receipt_info\<close> has product id \<open>p\<close> and an expiry strictly greater than the
  current time, the function returns true, having read the clock once. If every
  transaction of \<open>latest_receipt_info\<close> with product id \<open>p\<close> that has an expiry has one
  not greater than the current time, the function returns true exactly when some purchase
  of \<open>in_app\<close> has product id \<open>p\<close>, whatever its expiry. The clock is read at most once
  in every case. The expiry of a transaction whose \<open>expires_date_ms\<close> is a number, or
  the decimal text of one, is that number.
\<close>

theorem hasActiveSubscription_entitlement:
  assumes "well_formed_verified vr"
  shows "((\<exists>t\<in>set (latestTransactions vr). \<exists>n.
             Get t ''product_id'' = Inr (JStr p) \<and> expiresAtEpochMillis t = Some n \<and> shd c < n) \<longrightarrow>
          hasActiveSubscription c vr (JStr p) = (Inr True, stl c))
    \<and> ((\<forall>t\<in>set (latestTransactions vr). \<forall>n.
             Get t ''product_id'' = Inr (JStr p) \<and> expiresAtEpochMillis t = Some n \<longrightarrow> n \<le> shd c) \<longrightarrow>
          fst (hasActiveSubscription c vr (JStr p)) =
            Inr (\<exists>q\<in>set (inAppPurchases vr). Get q ''product_id'' = Inr (JStr p)))
    \<and> (snd (hasActiveSubscription c vr (JStr p)) = c \<or>
        snd (hasActiveSubscription c vr (JStr p)) = stl c)
    \<and> (\<forall>t\<in>set (latestTransactions vr). \<forall>n.
          expires_date_ms t = JStr (Number_toString n) \<or> expires_date_ms t = JNum n \<longrightarrow>
          expiresAtEpochMillis t = Some (sint n))"
proof (intro conjI impI ballI allI)
  assume ex: "\<exists>t\<in>set (latestTransactions vr). \<exists>n.
      Get t ''product_id'' = Inr (JStr p) \<and> expiresAtEpochMillis t = Some n \<and> shd c < n"
  then have "fst (hasActiveSubscription c vr (JStr p)) = Inr True"
    by (simp only: hasActiveSubscription_characterised [OF assms] simp_thms)
  moreover from ex have "latestTransactions vr \<noteq> []" by auto
  then have "snd (hasActiveSubscription c vr (JStr p)) = stl c"
    using assms by (simp add: hasActiveSubscription_reads_clock well_formed_verified_def)
  ultimately show "hasActiveSubscription c vr (JStr p) = (Inr True, stl c)"
    by (simp add: prod_eq_iff)
next
  assume "\<forall>t\<in>set (latestTransactions vr). \<forall>n.
      Get t ''product_id'' = Inr (JStr p) \<and> expiresAtEpochMillis t = Some n \<longrightarrow> n \<le> shd c"
  then have "(\<exists>t\<in>set (latestTransactions vr). \<exists>n.
      Get t ''product_id'' = Inr (JStr p) \<and> expiresAtEpochMillis t = Some n \<and> shd c < n) = False"
    by fastforce
  then show "fst (hasActiveSubscription c vr (JStr p)) =
      Inr (\<exists>q\<in>set (inAppPurchases vr). Get q ''product_id'' = Inr (JStr p))"
    by (simp only: hasActiveSubscription_characterised [OF assms] simp_thms)
next
  show "snd (hasActiveSubscription c vr (JStr p)) = c \<or>
      snd (hasActiveSubscription c vr (JStr p)) = stl c"
    by (rule hasActiveSubscription_clock)
next
  fix t n
  assume "expires_date_ms t = JStr (Number_toString n) \<or> expires_date_ms t = JNum n"
  then show "expiresAtEpochMillis t = Some (sint n)"
    by (rule expiry_of_decimal)
qed

lemma parseInt_string_examples:
  "parseInt_string ''1600000000000'' = Some 1600000000000"
  "parseInt_string ''1800000000000'' = Some 1800000000000"
  "parseInt_string ''1800000000000 ms'' = Some 1800000000000"
  by (simp_all add: parseInt_string_def StrWhiteSpaceChar_def is_radix_digit_def
      digit_value_def digits_value_def)

lemma starts_with_number_examples:
  "\<not> starts_with_number ''never''" "\<not> starts_with_number ''abc1''"
  "starts_with_number ''1800000000000 ms''"
  by (simp_all add: starts_with_number_def)

lemma example_transaction_reads:
  "Get (monthly_transaction ms) ''product_id'' = Inr (JStr ''com.app.monthly'')"
  "Get (yearly_transaction ms) ''product_id'' = Inr (JStr ''com.app.yearly'')"
  "Get purchase_of_monthly ''product_id'' = Inr (JStr ''com.app.monthly'')"
  "expiresAtEpochMillis (monthly_transaction ms) = parseInt_string ms"
  "expiresAtEpochMillis (yearly_transaction ms) = parseInt_string ms"
  "expires_date_ms (monthly_transaction ms) = JStr ms"
  "expires_date_ms (yearly_transaction ms) = JStr ms"
  "expires_date_ms purchase_of_monthly = JUndefined"
  "is_transaction (monthly_transaction ms)"
  "is_transaction (yearly_transaction ms)"
  "is_transaction purchase_of_monthly"
  by (simp_all add: expiresAtEpochMillis_def expires_date_ms_def
      monthly_transaction_def yearly_transaction_def purchase_of_monthly_def parseInt_def)

lemma example_receipts_well_formed:
  "well_formed_verified (verified_with receipt_active)"
  "well_formed_verified (verified_with receipt_expired)"
  "well_formed_verified (verified_with receipt_expired_with_purchase)"
  "well_formed_verified (verified_with receipt_two_products)"
  "well_formed_verified (verified_with receipt_without_expiry)"
  "well_formed_verified (verified_with receipt_with_unit)"
  by (simp_all add: well_formed_verified_def verified_with_def receipt_active_def
      receipt_expired_def receipt_expired_with_purchase_def receipt_two_products_def
      receipt_without_expiry_def receipt_with_unit_def example_transaction_reads)

lemma example_receipts_sequences:
  "latestTransactions (verified_with receipt_active) =
     [monthly_transaction ''1600000000000'', monthly_transaction ''1800000000000'']"
  "inAppPurchases (verified_with receipt_active) = []"
  "latestTransactions (verified_with receipt_expired) = [monthly_transaction ''1600000000000'']"
  "inAppPurchases (verified_with receipt_expired) = []"
  "latestTransactions (verified_with receipt_expired_with_purchase) =
     [monthly_transaction ''1600000000000'']"
  "inAppPurchases (verified_with receipt_expired_with_purchase) = [purchase_of_monthly]"
  "latestTransactions (verified_with receipt_two_products) =
     [yearly_transaction ''1800000000000'', monthly_transaction ''1600000000000'']"
  "inAppPurchases (verified_with receipt_two_products) = []"
  "latestTransactions (verified_with receipt_without_expiry) =
     [purchase_of_monthly, monthly_transaction ''never'', monthly_transaction ''abc1'']"
  "inAppPurchases (verified_with receipt_without_expiry) = []"
  "latestTransactions (verified_with receipt_with_unit) = [monthly_transaction ''1800000000000 ms'']"
  "inAppPurchases (verified_with receipt_with_unit) = []"
  by (simp_all add: latestTransactions_def inAppPurchases_def transactions_of_def
      verified_with_def receipt_active_def receipt_expired_def
      receipt_expired_with_purchase_def receipt_two_products_def
      receipt_without_expiry_def receipt_with_unit_def)

theorem hasActiveSubscription_entitlement_witness:
  "hasActiveSubscription (sconst 1700000000000) (verified_with receipt_active)
     (JStr ''com.app.monthly'') = (Inr True, sconst 1700000000000)
   \<and> fst (hasActiveSubscription (sconst 1799999999999) (verified_with receipt_active)
     (JStr ''com.app.monthly'')) = Inr True
   \<and> fst (hasActiveSubscription (sconst 1800000000000) (verified_with receipt_active)
     (JStr ''com.app.monthly'')) = Inr False
   \<and> fst (hasActiveSubscription (sconst 1700000000000) (verified_with receipt_expired)
     (JStr ''com.app.monthly'')) = Inr False
   \<and> fst (hasActiveSubscription (sconst 1700000000000) (verified_with receipt_expired_with_purchase)
     (JStr ''com.app.monthly'')) = Inr True
   \<and> fst (hasActiveSubscription (sconst 1700000000000) (verified_with receipt_two_products)
     (JStr ''com.app.yearly'')) = Inr True
   \<and> fst (hasActiveSubscription (sconst 1700000000000) (verified_with receipt_two_products)
     (JStr ''com.app.monthly'')) = Inr False
   \<and> fst (hasActiveSubscription (sconst 1700000000000) (verified_with receipt_expired_with_purchase)
     (JStr ''com.app.yearly'')) = Inr False"
  using hasActiveSubscription_entitlement
      [OF example_receipts_well_formed(1), of "''com.app.monthly''" "sconst 1700000000000"]
    hasActiveSubscription_entitlement
      [OF example_receipts_well_formed(1), of "''com.app.monthly''" "sconst 1799999999999"]
    hasActiveSubscription_entitlement
      [OF example_receipts_well_formed(1), of "''com.app.monthly''" "sconst 1800000000000"]
    hasActiveSubscription_entitlement
      [OF example_receipts_well_formed(2), of "''com.app.monthly''" "sconst 1700000000000"]
    hasActiveSubscription_entitlement
      [OF example_receipts_well_formed(3), of "''com.app.monthly''" "sconst 1700000000000"]
    hasActiveSubscription_entitlement
      [OF example_receipts_well_formed(4), of "''com.app.yearly''" "sconst 1700000000000"]
    hasActiveSubscription_entitlement
      [OF example_receipts_well_formed(4), of "''com.app.monthly''" "sconst 1700000000000"]
    hasActiveSubscription_entitlement
      [OF example_receipts_well_formed(3), of "''com.app.yearly''" "sconst 1700000000000"]
  by (simp add: example_receipts_sequences example_transaction_reads parseInt_string_examples)

text \<open>
  C7. For a result that is not a success, and for a result whose data has no \<open>receipt\<close>,
  the function returns false whatever the product id, without reading the clock.
\<close>

theorem hasActiveSubscription_rejected_or_no_receipt:
  "(\<not> success vr \<longrightarrow> hasActiveSubscription c vr productId = (Inr False, c))
   \<and> (Get (data vr) ''receipt'' = Inr JUndefined \<longrightarrow>
        hasActiveSubscription c vr productId = (Inr False, c))"
  by (simp add: hasActiveSubscription_def)

theorem hasActiveSubscription_rejected_or_no_receipt_witness:
  "\<not> success rejected_example
   \<and> hasActiveSubscription (sconst 1700000000000) rejected_example (JStr ''com.app.monthly'')
       = (Inr False, sconst 1700000000000)
   \<and> success verified_without_receipt
   \<and> Get (data verified_without_receipt) ''receipt'' = Inr JUndefined
   \<and> hasActiveSubscription (sconst 1700000000000) verified_without_receipt (JStr ''com.app.monthly'')
       = (Inr False, sconst 1700000000000)"
  using hasActiveSubscription_rejected_or_no_receipt
      [of rejected_example "sconst 1700000000000" "JStr ''com.app.monthly''"]
    hasActiveSubscription_rejected_or_no_receipt
      [of verified_without_receipt "sconst 1700000000000" "JStr ''com.app.monthly''"]
  by (simp add: rejected_example_def verified_without_receipt_def response_status_def)

text \<open>
  The outcome depends on the clock through its first reading only.
\<close>

lemma hasActiveSubscription_now:
  "shd c = shd c' \<Longrightarrow> fst (hasActiveSubscription c vr pid) = fst (hasActiveSubscription c' vr pid)"
  by (simp add: hasActiveSubscription_def Date_now_def split: sum.split bool.split)

text \<open>
  C9, as the code has it. On a well-formed verified result the function returns a boolean
  and throws nothing. The expiry of a transaction is \<open>NaN\<close> exactly when its
  \<open>expires_date_ms\<close> is absent, \<open>null\<close>, a boolean, or a string that does not start
  with a number. When every transaction of \<open>latest_receipt_info\<close> with product id \<open>p\<close>
  is such a transaction, the function returns true exactly when some purchase of
  \<open>in_app\<close> has product id \<open>p\<close>.
\<close>

theorem hasActiveSubscription_total_and_NaN:
  assumes "well_formed_verified vr"
  shows "(\<exists>b. fst (hasActiveSubscription c vr productId) = Inr b)
    \<and> (\<forall>t\<in>set (latestTransactions vr).
          (expiresAtEpochMillis t = None) = no_leading_number (expires_date_ms t))
    \<and> ((\<forall>t\<in>set (latestTransactions vr).
            Get t ''product_id'' = Inr (JStr p) \<longrightarrow> no_leading_number (expires_date_ms t)) \<longrightarrow>
          fst (hasActiveSubscription c vr (JStr p)) =
            Inr (\<exists>q\<in>set (inAppPurchases vr). Get q ''product_id'' = Inr (JStr p)))"
proof (intro conjI impI ballI)
  show "\<exists>b. fst (hasActiveSubscription c vr productId) = Inr b"
    using hasActiveSubscription_wf [OF assms, of c productId] by blast
next
  fix t
  assume "t \<in> set (latestTransactions vr)"
  then have "is_transaction t"
    using well_formed_sequences(1) [OF assms] by (simp add: list_all_iff)
  then show "(expiresAtEpochMillis t = None) = no_leading_number (expires_date_ms t)"
    by (rule expiry_None_iff)
next
  assume nan: "\<forall>t\<in>set (latestTransactions vr).
      Get t ''product_id'' = Inr (JStr p) \<longrightarrow> no_leading_number (expires_date_ms t)"
  have "expiresAtEpochMillis t = None"
    if "t \<in> set (latestTransactions vr)" and "Get t ''product_id'' = Inr (JStr p)" for t
  proof -
    from that(1) have "is_transaction t"
      using well_formed_sequences(1) [OF assms] by (simp add: list_all_iff)
    with nan that show ?thesis by (simp add: expiry_None_iff)
  qed
  then have "(\<exists>t\<in>set (latestTransactions vr). \<exists>n.
      Get t ''product_id'' = Inr (JStr p) \<and> expiresAtEpochMillis t = Some n \<and> shd c < n) = False"
    by fastforce
  then show "fst (hasActiveSubscription c vr (JStr p)) =
      Inr (\<exists>q\<in>set (inAppPurchases vr). Get q ''product_id'' = Inr (JStr p))"
    by (simp only: hasActiveSubscription_characterised [OF assms] simp_thms)
qed

theorem hasActiveSubscription_total_and_NaN_witness:
  "no_leading_number (expires_date_ms purchase_of_monthly)
   \<and> no_leading_number (expires_date_ms (monthly_transaction ''never''))
   \<and> no_leading_number (expires_date_ms (monthly_transaction ''abc1''))
   \<and> expiresAtEpochMillis (monthly_transaction ''abc1'') = None
   \<and> fst (hasActiveSubscription (sconst 1700000000000) (verified_with receipt_without_expiry)
       (JStr ''com.app.monthly'')) = Inr False"
  using hasActiveSubscription_total_and_NaN
      [OF example_receipts_well_formed(5), of "sconst 1700000000000" "JStr ''com.app.monthly''"
        "''com.app.monthly''"]
  by (simp add: example_receipts_sequences example_transaction_reads starts_with_number_examples)

text \<open>
  C9, as the claim words it, fails: an \<open>expires_date_ms\<close> that is not numeric but starts
  with digits is read as the number those digits denote. With \<open>1800000000000 ms\<close> on the
  only transaction, no purchase in \<open>in_app\<close> and the time 1700000000000, the receipt is
  well formed, the expiry is 1800000000000 and not \<open>NaN\<close>, and the function returns true
  through the scan of \<open>latest_receipt_info\<close>.
\<close>

theorem hasActiveSubscription_non_numeric_counterexample:
  "well_formed_verified (verified_with receipt_with_unit)
   \<and> latestTransactions (verified_with receipt_with_unit) = [monthly_transaction ''1800000000000 ms'']
   \<and> inAppPurchases (verified_with receipt_with_unit) = []
   \<and> expires_date_ms (monthly_transaction ''1800000000000 ms'') = JStr ''1800000000000 ms''
   \<and> expiresAtEpochMillis (monthly_transaction ''1800000000000 ms'') = Some 1800000000000
   \<and> hasActiveSubscription (sconst 1700000000000) (verified_with receipt_with_unit)
       (JStr ''com.app.monthly'') = (Inr True, sconst 1700000000000)"
proof -
  have "hasActiveSubscription (sconst 1700000000000) (verified_with receipt_with_unit)
      (JStr ''com.app.monthly'') = (Inr True, sconst 1700000000000)"
    by (simp add: hasActiveSubscription_def verified_with_def receipt_with_unit_def
        monthly_transaction_def Date_now_def parseInt_def parseInt_string_examples)
  then show ?thesis
    by (simp add: example_receipts_well_formed example_receipts_sequences
        example_transaction_reads parseInt_string_examples)
qed

end
